theory Spec2Isabelle
  imports Complex_Main
begin

section \<open>The image-match service (server.py)\<close>

text \<open>
  The service is a thin layer over two external capabilities: the Elasticsearch client
  \<^verbatim>\<open>es\<close> and the image-match driver \<^verbatim>\<open>ses\<close> / \<^verbatim>\<open>gis\<close>. The handlers of
  \<^verbatim>\<open>server.py\<close> are embedded as functions that pass the state of the index explicitly
  and return either a raised exception (\<open>Inl\<close>) or a value (\<open>Inr\<close>).

  Python floats are modelled as \<^typ>\<open>real\<close>: infinities and NaN are not part of the
  model, and rounding is treated for the two score conversions only (their rounded
  versions below). Python strings and byte strings are both \<^typ>\<open>string\<close>.

  The collaborators are taken to answer every call. Two failures are part of the model,
  because the source or the spec tells them apart: the signature engine raising on an
  image, and the index answering 404 to the delete of an id it does not hold.
\<close>

subsection \<open>Data model\<close>

text \<open>One stored document of the index: its id and the fields the service reads.\<close>

record ('s, 'm) doc =
  rec_id :: nat
  rec_path :: string
  rec_signature :: 's
  rec_metadata :: 'm

text \<open>
  The calls the service issues to its collaborators, with the arguments it passes:
  \<^item> \<open>Es_search_path path\<close> is \<^verbatim>\<open>es.search(index, _source='_id', q='path:' + json.dumps(path))\<close>;
  \<^item> \<open>Es_search_page frm sz\<close> is \<^verbatim>\<open>es.search(index, from_=frm, size=sz, _source='path')\<close>;
  \<^item> \<open>Es_delete i\<close> is \<^verbatim>\<open>es.delete(index, doc_type, id=i, ignore=404)\<close>;
  \<^item> \<open>Ses_add_image path img bs metadata\<close> is \<^verbatim>\<open>ses.add_image(path, img, bytestream=bs, metadata=metadata)\<close>;
  \<^item> \<open>Ses_search_image cutoff img ao bs\<close> is \<^verbatim>\<open>search_image(path=img, all_orientations=ao, bytestream=bs)\<close>
    on a driver built with \<^verbatim>\<open>distance_cutoff=cutoff\<close>.

  The state of the index keeps them in order of issue (\<open>calls\<close>), so that what a handler
  asks of the index, and in which order, can be read off the state. \<open>docs\<close> are the stored
  records in the index's own order and \<open>next_id\<close> is the id the index assigns next.
\<close>

datatype 'm call =
    Es_search_path string
  | Es_search_page int int
  | Es_delete nat
  | Ses_add_image string string bool 'm
  | Ses_search_image real string bool bool

record ('s, 'm) es_state =
  docs :: "('s, 'm) doc list"
  next_id :: nat
  calls :: "'m call list"

text \<open>
  Exceptions that reach a handler's caller: \<open>ValueError\<close> is raised by \<open>add_handler\<close>
  itself (line 96) and by \<^verbatim>\<open>json.loads\<close>, \<^verbatim>\<open>float\<close> and \<^verbatim>\<open>int\<close> on text they cannot read;
  \<open>BadRequestKeyError\<close> by \<^verbatim>\<open>request.form[...]\<close> and \<^verbatim>\<open>request.files[...]\<close> on a missing
  key; \<open>SignatureError\<close> stands for what the signature engine raises on an image it
  cannot load; \<open>NotFoundError\<close> is the index's answer 404 when it is not ignored.
\<close>

datatype exn =
    ValueError
  | BadRequestKeyError
  | SignatureError
  | NotFoundError

text \<open>
  Library functions the source calls and whose code is not part of the repository.
  They are parameters of the model: \<open>json_loads\<close> is \<^verbatim>\<open>json.loads\<close>,
  \<open>py_float\<close> and \<open>py_int\<close> are the builtins \<^verbatim>\<open>float\<close> and \<^verbatim>\<open>int\<close> on a
  string (\<open>None\<close> where they raise \<^verbatim>\<open>ValueError\<close>), \<open>generate_signature\<close> is the
  signature engine on an image given by URL or by bytes (\<open>None\<close> where it raises),
  \<open>orientations\<close> gives the signatures of the other orientations of a probe image,
  \<open>normalized_distance\<close> is the engine's distance and \<open>exn_str\<close> is \<^verbatim>\<open>str(e)\<close>.
\<close>

record ('s, 'm) libs =
  json_loads :: "string \<Rightarrow> 'm option"
  py_float :: "string \<Rightarrow> real option"
  py_int :: "string \<Rightarrow> int option"
  generate_signature :: "string \<Rightarrow> bool \<Rightarrow> 's option"
  orientations :: "string \<Rightarrow> bool \<Rightarrow> 's list"
  normalized_distance :: "'s \<Rightarrow> 's \<Rightarrow> real"
  exn_str :: "exn \<Rightarrow> string"

text \<open>The globals read from the environment at start-up (lines 16-24).\<close>

record config =
  auth_token :: "string option"
  all_orientations :: string
  default_min_score :: real

datatype http_method = GET | POST | DELETE | HEAD

record request =
  req_method :: http_method
  req_args :: "string \<rightharpoonup> string"
  req_form :: "string \<rightharpoonup> string"
  req_files :: "string \<rightharpoonup> string"

text \<open>The JSON values the handlers put into \<^verbatim>\<open>result\<close>, and the response envelope.\<close>

datatype 'm item =
    Match real string 'm
  | Path string

record 'm envelope =
  status :: string
  error :: "string list"
  method_name :: string
  result :: "'m item list"

datatype 'm body = Envelope "'m envelope" | Empty_object

text \<open>
  What a view function returns: a body alone (\<^verbatim>\<open>json.dumps(...)\<close>), or a body with a
  status code (\<^verbatim>\<open>json.dumps({}), 403\<close>).
\<close>

type_synonym 'm rv = "'m body \<times> nat option"

subsection \<open>Helpers (lines 38-83)\<close>

text \<open>
  Modelled from the spec: the index's lookup by exact field value (\<^verbatim>\<open>es.search\<close> with
  \<^verbatim>\<open>q='path:' + json.dumps(path)\<close>). The query syntax and its evaluation belong to
  Elasticsearch, whose code is not in the repository; the spec describes the capability
  as returning every record whose path equals the given value.
\<close>

definition es_search_path ::
  "string \<Rightarrow> ('s, 'm) es_state \<Rightarrow> ('s, 'm) doc list \<times> ('s, 'm) es_state" where
  "es_search_path path st =
     (filter (\<lambda>d. rec_path d = path) (docs st),
      st\<lparr>calls := calls st @ [Es_search_path path]\<rparr>)"

definition ids_with_path ::
  "string \<Rightarrow> ('s, 'm) es_state \<Rightarrow> nat list \<times> ('s, 'm) es_state" where
  "ids_with_path path st =
     (case es_search_path path st of (matches, st') \<Rightarrow> (map rec_id matches, st'))"

text \<open>
  Modelled from the spec: the index's page listing (\<^verbatim>\<open>es.search\<close> with \<^verbatim>\<open>from_\<close> and
  \<^verbatim>\<open>size\<close>): up to \<open>sz\<close> records starting at \<open>frm\<close> in the index's own order.
\<close>

definition es_search_page ::
  "int \<Rightarrow> int \<Rightarrow> ('s, 'm) es_state \<Rightarrow> ('s, 'm) doc list \<times> ('s, 'm) es_state" where
  "es_search_page frm sz st =
     (take (nat sz) (drop (nat frm) (docs st)),
      st\<lparr>calls := calls st @ [Es_search_page frm sz]\<rparr>)"

definition paths_at_location ::
  "int \<Rightarrow> int \<Rightarrow> ('s, 'm) es_state \<Rightarrow> string list \<times> ('s, 'm) es_state" where
  "paths_at_location offset limit st =
     (case es_search_page offset limit st of (hits, st') \<Rightarrow> (map rec_path hits, st'))"

text \<open>
  Modelled from the spec: delete by id. Deleting an id that is not in the index answers
  404, which raises unless 404 is among the ignored status codes.
\<close>

definition es_delete ::
  "nat \<Rightarrow> nat list \<Rightarrow> ('s, 'm) es_state \<Rightarrow> (exn + unit) \<times> ('s, 'm) es_state" where
  "es_delete i ignore st =
     (let st' = st\<lparr>calls := calls st @ [Es_delete i]\<rparr> in
      if i \<in> set (map rec_id (docs st))
      then (Inr (), st'\<lparr>docs := filter (\<lambda>d. rec_id d \<noteq> i) (docs st)\<rparr>)
      else if 404 \<in> set ignore then (Inr (), st')
      else (Inl NotFoundError, st'))"

fun delete_ids :: "nat list \<Rightarrow> ('s, 'm) es_state \<Rightarrow> (exn + unit) \<times> ('s, 'm) es_state" where
  "delete_ids [] st = (Inr (), st)"
| "delete_ids (i # ids) st =
     (case es_delete i [404] st of
        (Inl e, st') \<Rightarrow> (Inl e, st')
      | (Inr _, st') \<Rightarrow> delete_ids ids st')"

definition dist_to_percent :: "real \<Rightarrow> real" where
  "dist_to_percent d = (1 - d) * 100"

definition dist_from_percent :: "real \<Rightarrow> real" where
  "dist_from_percent percent = 1 - percent / 100"

definition get_image :: "request \<Rightarrow> string \<Rightarrow> string \<Rightarrow> exn + string \<times> bool" where
  "get_image req url_field file_field =
     (case req_form req url_field of
        Some url \<Rightarrow> Inr (url, False)
      | None \<Rightarrow>
          (case req_files req file_field of
             None \<Rightarrow> Inl BadRequestKeyError
           | Some bytes \<Rightarrow> Inr (bytes, True)))"

text \<open>Python truthiness of an optional string: \<^verbatim>\<open>None\<close> and \<^verbatim>\<open>''\<close> are false.\<close>

definition truthy :: "string option \<Rightarrow> bool" where
  "truthy v = (case v of None \<Rightarrow> False | Some s \<Rightarrow> s \<noteq> [])"

definition login_required ::
  "config \<Rightarrow> request \<Rightarrow> ('st \<Rightarrow> (exn + 'm rv) \<times> 'st) \<Rightarrow> 'st \<Rightarrow> (exn + 'm rv) \<times> 'st" where
  "login_required cfg req f st =
     (if truthy (auth_token cfg) \<and> req_args req ''token'' \<noteq> auth_token cfg
      then (Inr (Empty_object, Some 403), st)
      else f st)"

text \<open>Python's \<^verbatim>\<open>int(params.get(name, dflt))\<close> and \<^verbatim>\<open>float(params.get(name, dflt))\<close>.\<close>

definition int_arg :: "('s, 'm) libs \<Rightarrow> (string \<rightharpoonup> string) \<Rightarrow> string \<Rightarrow> int \<Rightarrow> int option" where
  "int_arg lib params name dflt =
     (case params name of None \<Rightarrow> Some dflt | Some s \<Rightarrow> py_int lib s)"

definition float_arg :: "('s, 'm) libs \<Rightarrow> (string \<rightharpoonup> string) \<Rightarrow> string \<Rightarrow> real \<Rightarrow> real option" where
  "float_arg lib params name dflt =
     (case params name of None \<Rightarrow> Some dflt | Some s \<Rightarrow> py_float lib s)"

subsection \<open>The image-match driver\<close>

text \<open>
  Modelled from the spec: \<^verbatim>\<open>SignatureES.add_image\<close>. It computes the signature of the
  image through the signature engine and inserts one new record with the given path and
  metadata; the index assigns the id. Nothing is inserted when the engine fails.
\<close>

definition add_image ::
  "('s, 'm) libs \<Rightarrow> string \<Rightarrow> string \<Rightarrow> bool \<Rightarrow> 'm \<Rightarrow> ('s, 'm) es_state
     \<Rightarrow> (exn + unit) \<times> ('s, 'm) es_state" where
  "add_image lib path img bytestream metadata st =
     (let st' = st\<lparr>calls := calls st @ [Ses_add_image path img bytestream metadata]\<rparr> in
      case generate_signature lib img bytestream of
        None \<Rightarrow> (Inl SignatureError, st')
      | Some sg \<Rightarrow>
          (Inr (),
           st'\<lparr>docs := docs st @ [\<lparr>rec_id = next_id st, rec_path = path,
                                    rec_signature = sg, rec_metadata = metadata\<rparr>],
               next_id := Suc (next_id st)\<rparr>))"

text \<open>One match of a similarity search, with the keys the service reads.\<close>

record 'm hit =
  m_dist :: real
  m_path :: string
  m_metadata :: 'm

text \<open>The distance of a record to the nearest of the probe's signatures.\<close>

definition nearest :: "('s, 'm) libs \<Rightarrow> 's \<Rightarrow> 's list \<Rightarrow> ('s, 'm) doc \<Rightarrow> real" where
  "nearest lib sg others d =
     fold (\<lambda>s acc. min (normalized_distance lib s (rec_signature d)) acc) others
       (normalized_distance lib sg (rec_signature d))"

text \<open>
  Modelled from the spec: \<^verbatim>\<open>SignatureES.search_image\<close> of a driver built with
  \<^verbatim>\<open>distance_cutoff\<close>. The probe's signature is computed; with \<open>all_orientations\<close> the
  signatures of its other orientations match as well; all records within the cutoff
  are returned by ascending distance, ties in the order of the index.
\<close>

definition search_image ::
  "('s, 'm) libs \<Rightarrow> real \<Rightarrow> string \<Rightarrow> bool \<Rightarrow> bool \<Rightarrow> ('s, 'm) es_state
     \<Rightarrow> (exn + 'm hit list) \<times> ('s, 'm) es_state" where
  "search_image lib distance_cutoff img ao bytestream st =
     (let st' = st\<lparr>calls := calls st @ [Ses_search_image distance_cutoff img ao bytestream]\<rparr> in
      case generate_signature lib img bytestream of
        None \<Rightarrow> (Inl SignatureError, st')
      | Some sg \<Rightarrow>
          (let others = (if ao then orientations lib img bytestream else []);
               hits = map (\<lambda>d. \<lparr>m_dist = nearest lib sg others d, m_path = rec_path d,
                                 m_metadata = rec_metadata d\<rparr>) (docs st)
           in (Inr (sort_key m_dist (filter (\<lambda>m. m_dist m \<le> distance_cutoff) hits)), st')))"

subsection \<open>Routes (lines 89-209)\<close>

text \<open>
  The bodies of the view functions. \<open>login_required\<close> wraps each of them when it is
  served; \<open>ok name res\<close> is the envelope every successful view returns.
\<close>

definition ok :: "string \<Rightarrow> 'm item list \<Rightarrow> 'm rv" where
  "ok name res =
     (Envelope \<lparr>status = ''ok'', error = [], method_name = name, result = res\<rparr>, None)"

definition add_handler ::
  "('s, 'm) libs \<Rightarrow> request \<Rightarrow> ('s, 'm) es_state \<Rightarrow> (exn + 'm rv) \<times> ('s, 'm) es_state" where
  "add_handler lib req st =
     (case json_loads lib (case req_form req ''metadata'' of None \<Rightarrow> ''null'' | Some s \<Rightarrow> s) of
        None \<Rightarrow> (Inl ValueError, st)
      | Some metadata \<Rightarrow>
          (case get_image req ''url'' ''image'' of
             Inl e \<Rightarrow> (Inl e, st)
           | Inr (img, bs) \<Rightarrow>
               (let path = req_form req ''filepath'' in
                if \<not> truthy path \<and> bs then (Inl ValueError, st)
                else
                  (let path = (case path of None \<Rightarrow> img
                                 | Some p \<Rightarrow> if \<not> truthy (Some p) then img else p) in
                   case ids_with_path path st of
                     (old_ids, st1) \<Rightarrow>
                       (case add_image lib path img bs metadata st1 of
                          (Inl e, st2) \<Rightarrow> (Inl e, st2)
                        | (Inr _, st2) \<Rightarrow>
                            (case delete_ids old_ids st2 of
                               (Inl e, st3) \<Rightarrow> (Inl e, st3)
                             | (Inr _, st3) \<Rightarrow> (Inr (ok ''add'' []), st3)))))))"

definition delete_handler ::
  "request \<Rightarrow> ('s, 'm) es_state \<Rightarrow> (exn + 'm rv) \<times> ('s, 'm) es_state" where
  "delete_handler req st =
     (case req_form req ''filepath'' of
        None \<Rightarrow> (Inl BadRequestKeyError, st)
      | Some path \<Rightarrow>
          (case ids_with_path path st of
             (ids, st1) \<Rightarrow>
               (case delete_ids ids st1 of
                  (Inl e, st2) \<Rightarrow> (Inl e, st2)
                | (Inr _, st2) \<Rightarrow> (Inr (ok ''delete'' []), st2))))"

definition search_handler ::
  "config \<Rightarrow> ('s, 'm) libs \<Rightarrow> request \<Rightarrow> ('s, 'm) es_state
     \<Rightarrow> (exn + 'm rv) \<times> ('s, 'm) es_state" where
  "search_handler cfg lib req st =
     (case get_image req ''url'' ''image'' of
        Inl e \<Rightarrow> (Inl e, st)
      | Inr (img, bs) \<Rightarrow>
          (let ao = ((case req_form req ''all_orientations'' of
                        None \<Rightarrow> all_orientations cfg | Some v \<Rightarrow> v) = ''true'') in
           case float_arg lib (req_form req) ''min_score'' (default_min_score cfg) of
             None \<Rightarrow> (Inl ValueError, st)
           | Some min_score \<Rightarrow>
               (case search_image lib (dist_from_percent min_score) img ao bs st of
                  (Inl e, st') \<Rightarrow> (Inl e, st')
                | (Inr matches, st') \<Rightarrow>
                    (Inr (ok ''search''
                            (map (\<lambda>m. Match (dist_to_percent (m_dist m)) (m_path m) (m_metadata m))
                               matches)),
                     st'))))"

definition list_handler ::
  "('s, 'm) libs \<Rightarrow> request \<Rightarrow> ('s, 'm) es_state \<Rightarrow> (exn + 'm rv) \<times> ('s, 'm) es_state" where
  "list_handler lib req st =
     (case (if req_method req = GET
            then (int_arg lib (req_args req) ''offset'' 0, int_arg lib (req_args req) ''limit'' 20)
            else (int_arg lib (req_form req) ''offset'' 0, int_arg lib (req_form req) ''limit'' 20)) of
        (Some offset_arg, Some limit_arg) \<Rightarrow>
          (let offset = max offset_arg 0; limit = max limit_arg 0 in
           case paths_at_location offset limit st of
             (paths, st') \<Rightarrow> (Inr (ok ''list'' (map Path paths)), st'))
      | _ \<Rightarrow> (Inl ValueError, st))"

subsection \<open>Error handling (lines 215-252)\<close>

definition bad_request :: "'m body \<times> nat" where
  "bad_request =
     (Envelope \<lparr>status = ''fail'', error = [''bad request''], method_name = [], result = []\<rparr>, 400)"

definition server_error :: "('s, 'm) libs \<Rightarrow> exn \<Rightarrow> 'm body \<times> nat" where
  "server_error lib e =
     (Envelope \<lparr>status = ''fail'', error = [exn_str lib e], method_name = [], result = []\<rparr>, 500)"

text \<open>
  How the web framework (Flask, not part of the repository) answers a request from what
  the view does. The source registers its handlers by status code only (400, 404, 405
  and 500) and none for an exception class. A returned body without a status is a 200;
  a raised \<^verbatim>\<open>BadRequestKeyError\<close> is an HTTP error with status 400 and goes to the handler
  registered for 400; any exception that is not an HTTP error goes to the handler
  registered for 500.
\<close>

definition full_dispatch_request ::
  "('s, 'm) libs \<Rightarrow> ('st \<Rightarrow> (exn + 'm rv) \<times> 'st) \<Rightarrow> 'st \<Rightarrow> ('m body \<times> nat) \<times> 'st" where
  "full_dispatch_request lib view st =
     (case view st of
        (Inl BadRequestKeyError, st') \<Rightarrow> (bad_request, st')
      | (Inl e, st') \<Rightarrow> (server_error lib e, st')
      | (Inr (b, None), st') \<Rightarrow> ((b, 200), st')
      | (Inr (b, Some code), st') \<Rightarrow> ((b, code), st'))"

definition add_route ::
  "config \<Rightarrow> ('s, 'm) libs \<Rightarrow> request \<Rightarrow> ('s, 'm) es_state
     \<Rightarrow> ('m body \<times> nat) \<times> ('s, 'm) es_state" where
  "add_route cfg lib req = full_dispatch_request lib (login_required cfg req (add_handler lib req))"

definition delete_route ::
  "config \<Rightarrow> ('s, 'm) libs \<Rightarrow> request \<Rightarrow> ('s, 'm) es_state
     \<Rightarrow> ('m body \<times> nat) \<times> ('s, 'm) es_state" where
  "delete_route cfg lib req = full_dispatch_request lib (login_required cfg req (delete_handler req))"

text \<open>An HTTP status in the 4xx range.\<close>

definition client_error :: "nat \<Rightarrow> bool" where
  "client_error code = (400 \<le> code \<and> code < 500)"

subsection \<open>Rounded arithmetic\<close>

text \<open>
  The two conversions with every arithmetic operation rounded: \<open>rd e x\<close> is the exact
  result \<open>x\<close> with relative error \<open>e\<close>, as a floating-point operation returns it.
  With all errors \<open>0\<close> they are \<open>dist_to_percent\<close> and \<open>dist_from_percent\<close>.
\<close>

definition rd :: "real \<Rightarrow> real \<Rightarrow> real" where
  "rd e x = x * (1 + e)"

definition fl_dist_to_percent :: "real \<Rightarrow> real \<Rightarrow> real \<Rightarrow> real" where
  "fl_dist_to_percent e1 e2 d = rd e2 (rd e1 (1 - d) * 100)"

definition fl_dist_from_percent :: "real \<Rightarrow> real \<Rightarrow> real \<Rightarrow> real" where
  "fl_dist_from_percent e3 e4 percent = rd e4 (1 - rd e3 (percent / 100))"

subsection \<open>Sequences of requests and well-formed indexes\<close>

text \<open>
  The path under which \<open>add_handler\<close> stores an image (lines 94-98): the \<^verbatim>\<open>filepath\<close>
  field when it is given and not empty, the image reference otherwise.
\<close>

definition resolved_path :: "request \<Rightarrow> string \<Rightarrow> string" where
  "resolved_path req img =
     (case req_form req ''filepath'' of
        None \<Rightarrow> img
      | Some p \<Rightarrow> if \<not> truthy (Some p) then img else p)"

text \<open>An add request for path \<open>P\<close>: by its \<^verbatim>\<open>filepath\<close> field, or by its URL alone.\<close>

definition adds_to :: "string \<Rightarrow> request \<Rightarrow> bool" where
  "adds_to P req =
     ((req_form req ''filepath'' = Some P \<and> P \<noteq> [])
      \<or> (\<not> truthy (req_form req ''filepath'') \<and> req_form req ''url'' = Some P))"

text \<open>Every stored id was assigned by the index: it lies below the next id.\<close>

definition fresh_ids :: "('s, 'm) es_state \<Rightarrow> bool" where
  "fresh_ids st = list_all (\<lambda>d. rec_id d < next_id st) (docs st)"

text \<open>
  Add requests served one after the other, with no other writer in between; the run
  stops at the first request that fails.
\<close>

fun run_adds ::
  "('s, 'm) libs \<Rightarrow> request list \<Rightarrow> ('s, 'm) es_state \<Rightarrow> (exn + unit) \<times> ('s, 'm) es_state" where
  "run_adds lib [] st = (Inr (), st)"
| "run_adds lib (r # rs) st =
     (case add_handler lib r st of
        (Inl e, st') \<Rightarrow> (Inl e, st')
      | (Inr _, st') \<Rightarrow> run_adds lib rs st')"

subsection \<open>Example inputs\<close>

text \<open>
  A small instance of the library functions: signatures are numbers (the length of the
  image reference), two signatures are at distance \<open>0\<close> when equal and \<open>1/2\<close> otherwise,
  metadata is kept as its JSON text.
\<close>

definition example_libs :: "(nat, string) libs" where
  "example_libs =
     \<lparr>json_loads = (\<lambda>s. if s = ''{'' then None else Some s),
      py_float = (\<lambda>s. if s = ''100'' then Some 100 else if s = ''90'' then Some 90
                     else if s = ''0'' then Some 0 else None),
      py_int = (\<lambda>s. if s = ''5'' then Some 5 else if s = ''-3'' then Some (- 3)
                   else if s = ''1000'' then Some 1000 else None),
      generate_signature = (\<lambda>img bs. if img = [] then None else Some (length img)),
      orientations = (\<lambda>img bs. [Suc (length img)]),
      normalized_distance = (\<lambda>a b. if a = b then 0 else 1 / 2),
      exn_str = (\<lambda>e. case e of ValueError \<Rightarrow> ''ValueError''
                   | BadRequestKeyError \<Rightarrow> ''BadRequestKeyError''
                   | SignatureError \<Rightarrow> ''SignatureError''
                   | NotFoundError \<Rightarrow> ''NotFoundError'')\<rparr>"

definition example_config :: config where
  "example_config = \<lparr>auth_token = None, all_orientations = ''false'', default_min_score = 90\<rparr>"

definition empty_index :: "(nat, string) es_state" where
  "empty_index = \<lparr>docs = [], next_id = 0, calls = []\<rparr>"

definition cats_index :: "(nat, string) es_state" where
  "cats_index =
     \<lparr>docs = [\<lparr>rec_id = 0, rec_path = ''cats/1.jpg'', rec_signature = 3, rec_metadata = ''a''\<rparr>,
              \<lparr>rec_id = 1, rec_path = ''cats/1.jpg.bak'', rec_signature = 5, rec_metadata = ''b''\<rparr>,
              \<lparr>rec_id = 2, rec_path = ''cats'', rec_signature = 3, rec_metadata = ''c''\<rparr>],
      next_id = 3, calls = []\<rparr>"

text \<open>\<open>cats_index\<close> after the record of \<^verbatim>\<open>cats/1.jpg\<close> was deleted.\<close>

definition cats_deleted :: "(nat, string) es_state" where
  "cats_deleted =
     \<lparr>docs = [\<lparr>rec_id = 1, rec_path = ''cats/1.jpg.bak'', rec_signature = 5, rec_metadata = ''b''\<rparr>,
              \<lparr>rec_id = 2, rec_path = ''cats'', rec_signature = 3, rec_metadata = ''c''\<rparr>],
      next_id = 3, calls = [Es_search_path ''cats/1.jpg'', Es_delete 0]\<rparr>"

definition add_first :: request where
  "add_first =
     \<lparr>req_method = POST, req_args = Map.empty,
      req_form = [''url'' \<mapsto> ''http://a/1'', ''filepath'' \<mapsto> ''x.jpg'', ''metadata'' \<mapsto> ''1''],
      req_files = Map.empty\<rparr>"

definition add_second :: request where
  "add_second =
     \<lparr>req_method = POST, req_args = Map.empty,
      req_form = [''filepath'' \<mapsto> ''x.jpg'', ''metadata'' \<mapsto> ''2''],
      req_files = [''image'' \<mapsto> ''PNG'']\<rparr>"

definition add_bytes_only :: request where
  "add_bytes_only =
     \<lparr>req_method = POST, req_args = Map.empty, req_form = Map.empty,
      req_files = [''image'' \<mapsto> ''PNG'']\<rparr>"

text \<open>Two requests with a required field missing: an add without image, a delete without path.\<close>

definition add_nothing :: request where
  "add_nothing =
     \<lparr>req_method = POST, req_args = Map.empty, req_form = [''filepath'' \<mapsto> ''x.jpg''],
      req_files = Map.empty\<rparr>"

definition delete_no_path :: request where
  "delete_no_path =
     \<lparr>req_method = DELETE, req_args = Map.empty, req_form = Map.empty, req_files = Map.empty\<rparr>"

definition add_cat :: request where
  "add_cat =
     \<lparr>req_method = POST, req_args = Map.empty,
      req_form = [''url'' \<mapsto> ''abc'', ''filepath'' \<mapsto> ''cats/1.jpg''],
      req_files = Map.empty\<rparr>"

definition delete_cat :: request where
  "delete_cat =
     \<lparr>req_method = DELETE, req_args = Map.empty, req_form = [''filepath'' \<mapsto> ''cats/1.jpg''],
      req_files = Map.empty\<rparr>"

definition search_probe :: "string \<Rightarrow> string \<Rightarrow> request" where
  "search_probe min_score ao =
     \<lparr>req_method = POST, req_args = Map.empty,
      req_form = [''url'' \<mapsto> ''abc'', ''min_score'' \<mapsto> min_score, ''all_orientations'' \<mapsto> ao],
      req_files = Map.empty\<rparr>"

definition list_page :: request where
  "list_page =
     \<lparr>req_method = GET, req_args = [''offset'' \<mapsto> ''-3'', ''limit'' \<mapsto> ''1000''],
      req_form = Map.empty, req_files = Map.empty\<rparr>"


section \<open>Score conversion\<close>

lemma fl_exact:
  "fl_dist_to_percent 0 0 d = dist_to_percent d"
  "fl_dist_from_percent 0 0 p = dist_from_percent p"
  by (simp_all add: fl_dist_to_percent_def fl_dist_from_percent_def rd_def
      dist_to_percent_def dist_from_percent_def)

lemma percent_round_trip:
  "dist_to_percent (dist_from_percent p) = p"
  by (simp add: dist_to_percent_def dist_from_percent_def field_simps)

lemma three_roundings:
  fixes u :: real
  assumes "\<bar>a\<bar> \<le> u" and "\<bar>b\<bar> \<le> u" and "\<bar>c\<bar> \<le> u" and "u \<le> 1 / 4"
  shows "\<bar>(1 + a) * (1 + b) * (1 + c) - 1\<bar> \<le> 4 * u"
proof -
  have u0: "0 \<le> u"
    using assms(1) by linarith
  have expand: "(1 + a) * (1 + b) * (1 + c) - 1 = a + b + c + a * b + a * c + b * c + a * b * c"
    by (simp add: algebra_simps)
  have pairs: "\<bar>a * b\<bar> \<le> u * u" "\<bar>a * c\<bar> \<le> u * u" "\<bar>b * c\<bar> \<le> u * u"
    using assms by (simp_all add: abs_mult mult_mono)
  have triple: "\<bar>a * b * c\<bar> \<le> u * u * u"
    using assms by (simp add: abs_mult mult_mono)
  have "u * u \<le> (1 / 4) * u"
    using assms(4) u0 by (intro mult_mono) auto
  then have sq: "u * u \<le> u / 4"
    by simp
  have "u * u * u \<le> (1 / 4) * (1 / 4) * u"
    using assms(4) u0 by (intro mult_mono) auto
  then have cube: "u * u * u \<le> u / 16"
    by simp
  from pairs triple sq cube assms(1-3) show ?thesis
    unfolding expand by linarith
qed

lemma round_trip_rounded:
  fixes u :: real
  assumes "0 \<le> d" and "d \<le> 1" and "u \<le> 1 / 4"
    and "\<bar>e1\<bar> \<le> u" and "\<bar>e2\<bar> \<le> u" and "\<bar>e3\<bar> \<le> u" and "\<bar>e4\<bar> \<le> u"
  shows "\<bar>fl_dist_from_percent e3 e4 (fl_dist_to_percent e1 e2 d) - d\<bar> \<le> 6 * u"
proof -
  define E where "E = (1 + e1) * (1 + e2) * (1 + e3) - 1"
  have u0: "0 \<le> u"
    using assms(4) by linarith
  have E: "\<bar>E\<bar> \<le> 4 * u"
    unfolding E_def using assms(4-6,3) by (rule three_roundings)
  have score: "fl_dist_to_percent e1 e2 d / 100 = (1 - d) * ((1 + e1) * (1 + e2))"
    by (simp add: fl_dist_to_percent_def rd_def)
  then have "fl_dist_from_percent e3 e4 (fl_dist_to_percent e1 e2 d)
        = (1 - (1 - d) * ((1 + e1) * (1 + e2)) * (1 + e3)) * (1 + e4)"
    by (simp add: fl_dist_from_percent_def rd_def)
  then have eq: "fl_dist_from_percent e3 e4 (fl_dist_to_percent e1 e2 d) - d
        = d * e4 - (1 - d) * E * (1 + e4)"
    by (simp add: E_def algebra_simps)
  have "\<bar>d * e4\<bar> \<le> 1 * u"
    unfolding abs_mult using assms by (intro mult_mono) auto
  moreover have "\<bar>(1 - d) * E * (1 + e4)\<bar> \<le> 1 * (4 * u) * (5 / 4)"
    unfolding abs_mult using assms E u0 by (intro mult_mono) auto
  ultimately show ?thesis
    unfolding eq by linarith
qed

text \<open>
  Claim C4. For every distance \<open>d\<close> in \<open>[0, 1]\<close> the score \<open>(1 - d) * 100\<close> lies in
  \<open>[0, 100]\<close>, and converting it back by \<open>1 - score / 100\<close> yields \<open>d\<close> again: exactly in
  exact arithmetic, and within \<open>6 * u\<close> of \<open>d\<close> when each of the four operations is rounded
  with a relative error of at most \<open>u\<close> (\<open>u \<le> 1/4\<close>; for a Python float \<open>u\<close> is \<open>2\<^sup>-\<^sup>5\<^sup>3\<close>).
\<close>

theorem score_round_trip:
  assumes "0 \<le> d" and "d \<le> 1"
  shows "0 \<le> dist_to_percent d \<and> dist_to_percent d \<le> 100
     \<and> dist_from_percent (dist_to_percent d) = d
     \<and> (\<forall>u e1 e2 e3 e4.
           u \<le> 1 / 4 \<and> \<bar>e1\<bar> \<le> u \<and> \<bar>e2\<bar> \<le> u \<and> \<bar>e3\<bar> \<le> u \<and> \<bar>e4\<bar> \<le> u \<longrightarrow>
           \<bar>fl_dist_from_percent e3 e4 (fl_dist_to_percent e1 e2 d) - d\<bar> \<le> 6 * u)"
proof -
  have "0 \<le> dist_to_percent d \<and> dist_to_percent d \<le> 100"
    using assms by (simp add: dist_to_percent_def)
  moreover have "dist_from_percent (dist_to_percent d) = d"
    by (simp add: dist_to_percent_def dist_from_percent_def field_simps)
  moreover have "\<bar>fl_dist_from_percent e3 e4 (fl_dist_to_percent e1 e2 d) - d\<bar> \<le> 6 * u"
    if "u \<le> 1 / 4 \<and> \<bar>e1\<bar> \<le> u \<and> \<bar>e2\<bar> \<le> u \<and> \<bar>e3\<bar> \<le> u \<and> \<bar>e4\<bar> \<le> u"
    for u e1 e2 e3 e4
    using assms that by (intro round_trip_rounded) simp_all
  ultimately show ?thesis
    by blast
qed

theorem score_round_trip_witness:
  "(0 :: real) \<le> 1 / 4 \<and> (1 / 4 :: real) \<le> 1
   \<and> dist_to_percent (1 / 4) = 75 \<and> dist_from_percent 75 = 1 / 4
   \<and> dist_from_percent (dist_to_percent (1 / 4)) = 1 / 4"
  using score_round_trip [of "1 / 4"]
  by (simp add: dist_to_percent_def dist_from_percent_def)

section \<open>Search\<close>

text \<open>What \<open>search_handler\<close> asks of the driver, once the probe and the score parse.\<close>

lemma search_calls:
  assumes "get_image req ''url'' ''image'' = Inr (img, bs)"
    and "float_arg lib (req_form req) ''min_score'' (default_min_score cfg) = Some ms"
  shows "calls (snd (search_handler cfg lib req st)) =
     calls st @ [Ses_search_image (dist_from_percent ms) img
        ((case req_form req ''all_orientations'' of
            None \<Rightarrow> all_orientations cfg | Some v \<Rightarrow> v) = ''true'') bs]"
  using assms
  by (simp add: search_handler_def search_image_def Let_def split: option.splits)

lemma search_handler_unparsed:
  assumes "get_image req ''url'' ''image'' = Inl e
     \<or> float_arg lib (req_form req) ''min_score'' (default_min_score cfg) = None"
  shows "snd (search_handler cfg lib req st) = st"
  using assms
  by (auto simp: search_handler_def Let_def split: sum.splits option.splits)

text \<open>
  Claim C5. In a search, a minimum score of exactly \<open>100\<close> (given in the request, or the
  configured default) is passed to the driver as the distance cutoff \<open>0\<close>, and every
  minimum score \<open>\<le> 0\<close> as a cutoff \<open>\<ge> 1\<close>.
\<close>

theorem min_score_cutoff:
  assumes "get_image req ''url'' ''image'' = Inr (img, bs)"
    and "(case req_form req ''min_score'' of
            None \<Rightarrow> Some (default_min_score cfg)
          | Some s \<Rightarrow> py_float lib s) = Some ms"
  shows "\<exists>cutoff ao.
      calls (snd (search_handler cfg lib req st)) = calls st @ [Ses_search_image cutoff img ao bs]
      \<and> cutoff = dist_from_percent ms
      \<and> (ms = 100 \<longrightarrow> cutoff = 0) \<and> (ms \<le> 0 \<longrightarrow> 1 \<le> cutoff)"
proof -
  from assms(2) have "float_arg lib (req_form req) ''min_score'' (default_min_score cfg) = Some ms"
    by (simp add: float_arg_def)
  from search_calls [OF assms(1) this, of st] show ?thesis
    by (simp add: dist_from_percent_def)
qed

theorem min_score_cutoff_witness:
  "get_image (search_probe ''100'' ''false'') ''url'' ''image'' = Inr (''abc'', False)
   \<and> py_float example_libs ''100'' = Some 100
   \<and> calls (snd (search_handler example_config example_libs (search_probe ''100'' ''false'')
        cats_index)) = [Ses_search_image 0 ''abc'' False False]
   \<and> calls (snd (search_handler example_config example_libs (search_probe ''0'' ''false'')
        cats_index)) = [Ses_search_image 1 ''abc'' False False]"
proof -
  have img: "get_image (search_probe ''100'' ''false'') ''url'' ''image'' = Inr (''abc'', False)"
    by (simp add: get_image_def search_probe_def)
  have ms: "(case req_form (search_probe ''100'' ''false'') ''min_score'' of
               None \<Rightarrow> Some (default_min_score example_config)
             | Some s \<Rightarrow> py_float example_libs s) = Some 100"
    by (simp add: search_probe_def example_libs_def)
  have parsed: "py_float example_libs ''100'' = Some 100"
    by (simp add: example_libs_def)
  have zero: "calls (snd (search_handler example_config example_libs (search_probe ''0'' ''false'')
        cats_index)) = [Ses_search_image 1 ''abc'' False False]"
    by (simp add: search_handler_def search_image_def get_image_def float_arg_def Let_def
        search_probe_def example_libs_def example_config_def cats_index_def dist_from_percent_def)
  have hundred: "calls (snd (search_handler example_config example_libs
        (search_probe ''100'' ''false'') cats_index)) = [Ses_search_image 0 ''abc'' False False]"
    by (simp add: search_handler_def search_image_def get_image_def float_arg_def Let_def
        search_probe_def example_libs_def example_config_def cats_index_def dist_from_percent_def)
  from min_score_cutoff [OF img ms, of cats_index] img parsed zero hundred show ?thesis
    by simp
qed

text \<open>
  Claim C10. In a search, the orientation flag passed to the driver is true if and only
  if the request's \<^verbatim>\<open>all_orientations\<close> field, or the configured \<^verbatim>\<open>ALL_ORIENTATIONS\<close>
  string when the field is absent, is exactly the string \<^verbatim>\<open>true\<close>.
\<close>

theorem orientation_flag:
  assumes "get_image req ''url'' ''image'' = Inr (img, bs)"
    and "float_arg lib (req_form req) ''min_score'' (default_min_score cfg) = Some ms"
  shows "\<exists>cutoff ao.
      calls (snd (search_handler cfg lib req st)) = calls st @ [Ses_search_image cutoff img ao bs]
      \<and> (ao \<longleftrightarrow> (case req_form req ''all_orientations'' of
                   None \<Rightarrow> all_orientations cfg = ''true''
                 | Some v \<Rightarrow> v = ''true''))"
  using search_calls [OF assms, of st]
  by (simp split: option.splits)

theorem orientation_flag_witness:
  "get_image (search_probe ''90'' ''True'') ''url'' ''image'' = Inr (''abc'', False)
   \<and> float_arg example_libs (req_form (search_probe ''90'' ''True'')) ''min_score''
        (default_min_score example_config) = Some 90
   \<and> req_form (search_probe ''90'' ''True'') ''all_orientations'' = Some ''True''
   \<and> (\<exists>cutoff. calls (snd (search_handler example_config example_libs
        (search_probe ''90'' ''True'') cats_index)) = [Ses_search_image cutoff ''abc'' False False])"
proof -
  have img: "get_image (search_probe ''90'' ''True'') ''url'' ''image'' = Inr (''abc'', False)"
    by (simp add: get_image_def search_probe_def)
  have ms: "float_arg example_libs (req_form (search_probe ''90'' ''True'')) ''min_score''
        (default_min_score example_config) = Some 90"
    by (simp add: float_arg_def search_probe_def example_libs_def)
  have field: "req_form (search_probe ''90'' ''True'') ''all_orientations'' = Some ''True''"
    by (simp add: search_probe_def)
  have empty: "calls cats_index = []"
    by (simp add: cats_index_def)
  from orientation_flag [OF img ms, of cats_index] img ms field empty show ?thesis
    by auto
qed

text \<open>The literal values: only \<^verbatim>\<open>true\<close> enables the expansion.\<close>

lemma orientation_flag_examples:
  "calls (snd (search_handler example_config example_libs (search_probe ''90'' ''true'') cats_index))
     = [Ses_search_image (1 / 10) ''abc'' True False]"
  "calls (snd (search_handler example_config example_libs (search_probe ''90'' ''TRUE'') cats_index))
     = [Ses_search_image (1 / 10) ''abc'' False False]"
  "calls (snd (search_handler example_config example_libs (search_probe ''90'' ''1'') cats_index))
     = [Ses_search_image (1 / 10) ''abc'' False False]"
  by (simp_all add: search_handler_def search_image_def get_image_def float_arg_def Let_def
      search_probe_def example_libs_def example_config_def cats_index_def dist_from_percent_def)

text \<open>The result of a search whose probe has a signature, and of one whose probe has none.\<close>

lemma search_handler_result:
  assumes "get_image req ''url'' ''image'' = Inr (img, bs)"
    and "float_arg lib (req_form req) ''min_score'' (default_min_score cfg) = Some ms"
    and "generate_signature lib img bs = Some sg"
  shows "\<exists>e. fst (search_handler cfg lib req st) = Inr (Envelope e, None)
     \<and> length (result e) =
        length (filter (\<lambda>d. nearest lib sg
            (if (case req_form req ''all_orientations'' of
                   None \<Rightarrow> all_orientations cfg | Some v \<Rightarrow> v) = ''true''
             then orientations lib img bs else []) d \<le> dist_from_percent ms) (docs st))"
  using assms
  by (simp add: search_handler_def search_image_def Let_def ok_def filter_map o_def)

lemma search_handler_no_signature:
  assumes "get_image req ''url'' ''image'' = Inr (img, bs)"
    and "float_arg lib (req_form req) ''min_score'' (default_min_score cfg) = Some ms"
    and "generate_signature lib img bs = None"
  shows "fst (search_handler cfg lib req st) = Inl SignatureError"
  using assms
  by (simp add: search_handler_def search_image_def Let_def)

lemma length_filter_mono:
  assumes "\<And>x. P x \<Longrightarrow> Q x"
  shows "length (filter P xs) \<le> length (filter Q xs)"
  using assms by (induction xs) auto

text \<open>
  Claim C7. For the same probe image, the same orientation setting and the same records
  in the index, a search with the larger minimum score returns no more results than the
  search with the smaller one (and fails exactly when the other fails).
\<close>

theorem cutoff_monotone:
  assumes "get_image req1 ''url'' ''image'' = Inr (img, bs)"
    and "get_image req2 ''url'' ''image'' = Inr (img, bs)"
    and "req_form req1 ''all_orientations'' = req_form req2 ''all_orientations''"
    and "float_arg lib (req_form req1) ''min_score'' (default_min_score cfg) = Some p1"
    and "float_arg lib (req_form req2) ''min_score'' (default_min_score cfg) = Some p2"
    and "p1 \<le> p2"
    and "docs st1 = docs st2"
  shows "(case (fst (search_handler cfg lib req1 st1), fst (search_handler cfg lib req2 st2)) of
            (Inr (Envelope e1, _), Inr (Envelope e2, _)) \<Rightarrow>
              length (result e2) \<le> length (result e1)
          | (Inl x1, Inl x2) \<Rightarrow> x1 = x2
          | _ \<Rightarrow> False)"
proof (cases "generate_signature lib img bs")
  case None
  show ?thesis
    by (simp add: search_handler_no_signature [OF assms(1,4) None]
        search_handler_no_signature [OF assms(2,5) None])
next
  case (Some sg)
  from search_handler_result [OF assms(1,4) Some, of st1] obtain e1 where
    e1: "fst (search_handler cfg lib req1 st1) = Inr (Envelope e1, None)"
    and l1: "length (result e1) =
        length (filter (\<lambda>d. nearest lib sg
            (if (case req_form req1 ''all_orientations'' of
                   None \<Rightarrow> all_orientations cfg | Some v \<Rightarrow> v) = ''true''
             then orientations lib img bs else []) d \<le> dist_from_percent p1) (docs st1))"
    by blast
  from search_handler_result [OF assms(2,5) Some, of st2] obtain e2 where
    e2: "fst (search_handler cfg lib req2 st2) = Inr (Envelope e2, None)"
    and l2: "length (result e2) =
        length (filter (\<lambda>d. nearest lib sg
            (if (case req_form req2 ''all_orientations'' of
                   None \<Rightarrow> all_orientations cfg | Some v \<Rightarrow> v) = ''true''
             then orientations lib img bs else []) d \<le> dist_from_percent p2) (docs st2))"
    by blast
  have "dist_from_percent p2 \<le> dist_from_percent p1"
    using assms(6) by (simp add: dist_from_percent_def)
  then have "length (result e2) \<le> length (result e1)"
    unfolding l1 l2 assms(3) assms(7)
    by (intro length_filter_mono) simp
  with e1 e2 show ?thesis
    by simp
qed

lemma search_example_all:
  "fst (search_handler example_config example_libs (search_probe ''0'' ''false'') cats_index) =
     Inr (ok ''search'' [Match 100 ''cats/1.jpg'' ''a'', Match 100 ''cats'' ''c'',
                         Match 50 ''cats/1.jpg.bak'' ''b''])"
  by (simp add: search_handler_def search_image_def get_image_def float_arg_def Let_def
      nearest_def search_probe_def example_libs_def example_config_def cats_index_def
      dist_from_percent_def dist_to_percent_def)

lemma search_example_exact:
  "fst (search_handler example_config example_libs (search_probe ''100'' ''false'') cats_index) =
     Inr (ok ''search'' [Match 100 ''cats/1.jpg'' ''a'', Match 100 ''cats'' ''c''])"
  by (simp add: search_handler_def search_image_def get_image_def float_arg_def Let_def
      nearest_def search_probe_def example_libs_def example_config_def cats_index_def
      dist_from_percent_def dist_to_percent_def)

theorem cutoff_monotone_witness:
  "get_image (search_probe ''0'' ''false'') ''url'' ''image'' = Inr (''abc'', False)
   \<and> get_image (search_probe ''100'' ''false'') ''url'' ''image'' = Inr (''abc'', False)
   \<and> float_arg example_libs (req_form (search_probe ''0'' ''false'')) ''min_score''
        (default_min_score example_config) = Some 0
   \<and> float_arg example_libs (req_form (search_probe ''100'' ''false'')) ''min_score''
        (default_min_score example_config) = Some 100
   \<and> (0 :: real) \<le> 100
   \<and> fst (search_handler example_config example_libs (search_probe ''0'' ''false'') cats_index) =
       Inr (ok ''search'' [Match 100 ''cats/1.jpg'' ''a'', Match 100 ''cats'' ''c'',
                           Match 50 ''cats/1.jpg.bak'' ''b''])
   \<and> fst (search_handler example_config example_libs (search_probe ''100'' ''false'') cats_index) =
       Inr (ok ''search'' [Match 100 ''cats/1.jpg'' ''a'', Match 100 ''cats'' ''c''])"
proof -
  have img1: "get_image (search_probe ''0'' ''false'') ''url'' ''image'' = Inr (''abc'', False)"
    and img2: "get_image (search_probe ''100'' ''false'') ''url'' ''image'' = Inr (''abc'', False)"
    by (simp_all add: get_image_def search_probe_def)
  have ao: "req_form (search_probe ''0'' ''false'') ''all_orientations'' =
            req_form (search_probe ''100'' ''false'') ''all_orientations''"
    by (simp add: search_probe_def)
  have p1: "float_arg example_libs (req_form (search_probe ''0'' ''false'')) ''min_score''
        (default_min_score example_config) = Some 0"
    and p2: "float_arg example_libs (req_form (search_probe ''100'' ''false'')) ''min_score''
        (default_min_score example_config) = Some 100"
    by (simp_all add: float_arg_def search_probe_def example_libs_def)
  have le: "(0 :: real) \<le> 100"
    by simp
  from cutoff_monotone [OF img1 img2 ao p1 p2 le refl, of cats_index]
    img1 img2 p1 p2 search_example_all search_example_exact
  show ?thesis
    by simp
qed

section \<open>Listing\<close>

text \<open>
  Claim C9. A list request reads \<^verbatim>\<open>offset\<close> and \<^verbatim>\<open>limit\<close> from the query string (GET) or the
  form (otherwise), with defaults \<open>0\<close> and \<open>20\<close> when absent; what it passes to the page
  query of the index is each value clamped from below at \<open>0\<close>, and a non-negative limit
  is passed unchanged, however large.
\<close>

theorem list_clamp:
  assumes "params = (if req_method req = GET then req_args req else req_form req)"
    and "(case params ''offset'' of None \<Rightarrow> Some 0 | Some s \<Rightarrow> py_int lib s) = Some off"
    and "(case params ''limit'' of None \<Rightarrow> Some 20 | Some s \<Rightarrow> py_int lib s) = Some lm"
  shows "\<exists>offset limit.
      calls (snd (list_handler lib req st)) = calls st @ [Es_search_page offset limit]
      \<and> offset = max off 0 \<and> limit = max lm 0 \<and> 0 \<le> offset \<and> 0 \<le> limit
      \<and> (0 \<le> lm \<longrightarrow> limit = lm)
      \<and> (params ''offset'' = None \<longrightarrow> offset = 0)
      \<and> (params ''limit'' = None \<longrightarrow> limit = 20)"
  using assms
  by (auto simp: list_handler_def int_arg_def paths_at_location_def es_search_page_def Let_def)

theorem list_clamp_witness:
  "req_method list_page = GET
   \<and> req_args list_page ''offset'' = Some ''-3'' \<and> py_int example_libs ''-3'' = Some (- 3)
   \<and> req_args list_page ''limit'' = Some ''1000'' \<and> py_int example_libs ''1000'' = Some 1000
   \<and> calls (snd (list_handler example_libs list_page cats_index)) = [Es_search_page 0 1000]"
proof -
  have params: "req_args list_page = (if req_method list_page = GET then req_args list_page
                                      else req_form list_page)"
    by (simp add: list_page_def)
  have off: "(case req_args list_page ''offset'' of None \<Rightarrow> Some 0
              | Some s \<Rightarrow> py_int example_libs s) = Some (- 3)"
    and lm: "(case req_args list_page ''limit'' of None \<Rightarrow> Some 20
              | Some s \<Rightarrow> py_int example_libs s) = Some 1000"
    by (simp_all add: list_page_def example_libs_def)
  have fields: "req_method list_page = GET" "req_args list_page ''offset'' = Some ''-3''"
    "req_args list_page ''limit'' = Some ''1000''"
    by (simp_all add: list_page_def)
  have parsed: "py_int example_libs ''-3'' = Some (- 3)" "py_int example_libs ''1000'' = Some 1000"
    by (simp_all add: example_libs_def)
  have empty: "calls cats_index = []"
    by (simp add: cats_index_def)
  from list_clamp [OF params off lm, of cats_index] fields parsed empty show ?thesis
    by simp
qed

text \<open>A value that does not parse as an integer fails the request before any query.\<close>

lemma list_handler_unparsed:
  assumes "params = (if req_method req = GET then req_args req else req_form req)"
    and "int_arg lib params ''offset'' 0 = None \<or> int_arg lib params ''limit'' 20 = None"
  shows "list_handler lib req st = (Inl ValueError, st)"
  using assms
  by (auto simp: list_handler_def split: option.splits)

text \<open>With no fields at all the page query is asked for offset \<open>0\<close> and limit \<open>20\<close>.\<close>

lemma list_handler_defaults:
  assumes "req_args req = Map.empty" and "req_form req = Map.empty"
  shows "calls (snd (list_handler lib req st)) = calls st @ [Es_search_page 0 20]"
  using assms
  by (simp add: list_handler_def int_arg_def paths_at_location_def es_search_page_def Let_def)

section \<open>Path registry\<close>

subsection \<open>Lookup by path\<close>

text \<open>
  Claim C6. The lookup by path returns the ids of exactly the records whose path equals
  the given string, in the order of the index, and nothing when no record has that
  path; it leaves the records as they are.
\<close>

theorem ids_with_path_exact:
  "fst (ids_with_path path st) = map rec_id (filter (\<lambda>d. rec_path d = path) (docs st))
   \<and> set (fst (ids_with_path path st)) = {rec_id d |d. d \<in> set (docs st) \<and> rec_path d = path}
   \<and> ((\<forall>d \<in> set (docs st). rec_path d \<noteq> path) \<longrightarrow> fst (ids_with_path path st) = [])
   \<and> docs (snd (ids_with_path path st)) = docs st"
  by (auto simp: ids_with_path_def es_search_path_def filter_empty_conv)

theorem ids_with_path_exact_witness:
  "fst (ids_with_path ''cats/1.jpg'' cats_index) = [0]
   \<and> fst (ids_with_path ''cats/1'' cats_index) = []
   \<and> fst (ids_with_path ''cats/2.jpg'' cats_index) = []
   \<and> fst (ids_with_path ''cats'' cats_index) = [2]"
  using ids_with_path_exact [of "''cats/1.jpg''" cats_index]
  by (simp add: ids_with_path_def es_search_path_def cats_index_def)

subsection \<open>Delete\<close>

text \<open>
  Retiring a list of ids never raises (a missing id answers 404, which is ignored): it
  removes the records with these ids and issues one delete per id, in order.
\<close>

lemma delete_ids_eq:
  "delete_ids ids st =
     (Inr (), st\<lparr>docs := filter (\<lambda>d. rec_id d \<notin> set ids) (docs st),
                 calls := calls st @ map Es_delete ids\<rparr>)"
proof (induction ids arbitrary: st)
  case Nil
  show ?case by simp
next
  case (Cons i ids)
  have "filter (\<lambda>d. rec_id d \<notin> set ids) (filter (\<lambda>d. rec_id d \<noteq> i) (docs st)) =
        filter (\<lambda>d. rec_id d \<notin> set (i # ids)) (docs st)"
    by (induction "docs st") (auto simp: conj_commute)
  moreover have "i \<notin> rec_id ` set (docs st) \<Longrightarrow>
      filter (\<lambda>d. rec_id d \<notin> set ids) (docs st) =
      filter (\<lambda>d. rec_id d \<notin> set (i # ids)) (docs st)"
    by (rule filter_cong) auto
  ultimately show ?case
    by (simp add: es_delete_def Let_def Cons.IH)
qed

lemma lookup_after_delete:
  "filter (\<lambda>d. rec_path d = path)
     (filter (\<lambda>d. rec_id d \<notin> set (map rec_id (filter (\<lambda>d. rec_path d = path) ds))) ds) = []"
  by (induction ds) (auto simp: filter_empty_conv)

lemma delete_handler_eq:
  assumes "req_form req ''filepath'' = Some path"
  shows "delete_handler req st =
     (Inr (ok ''delete'' []),
      st\<lparr>docs := filter (\<lambda>d. rec_id d \<notin> set (map rec_id (filter (\<lambda>d. rec_path d = path) (docs st))))
                   (docs st),
         calls := calls st @ Es_search_path path
                  # map Es_delete (map rec_id (filter (\<lambda>d. rec_path d = path) (docs st)))\<rparr>)"
  using assms
  by (simp add: delete_handler_def ids_with_path_def es_search_path_def delete_ids_eq)

lemma delete_handler_no_path:
  assumes "req_form req ''filepath'' = None"
  shows "delete_handler req st = (Inl BadRequestKeyError, st)"
  using assms by (simp add: delete_handler_def)

text \<open>
  Claim C8. Deleting a path twice in succession succeeds both times: the first delete
  leaves no record with that path, the second finds none and changes no record. A
  delete for a path without records succeeds, changes no record and issues no delete
  to the index.
\<close>

theorem delete_idempotent:
  assumes "req_form req ''filepath'' = Some path"
  shows "\<exists>st1 st2. delete_handler req st = (Inr (ok ''delete'' []), st1)
          \<and> delete_handler req st1 = (Inr (ok ''delete'' []), st2)
          \<and> filter (\<lambda>d. rec_path d = path) (docs st1) = []
          \<and> docs st2 = docs st1
          \<and> calls st2 = calls st1 @ [Es_search_path path]
          \<and> (filter (\<lambda>d. rec_path d = path) (docs st) = [] \<longrightarrow>
                docs st1 = docs st \<and> calls st1 = calls st @ [Es_search_path path])"
proof -
  obtain st1 where first: "delete_handler req st = (Inr (ok ''delete'' []), st1)"
    and docs1: "docs st1 =
      filter (\<lambda>d. rec_id d \<notin> set (map rec_id (filter (\<lambda>d. rec_path d = path) (docs st)))) (docs st)"
    and calls1: "calls st1 = calls st @ Es_search_path path
      # map Es_delete (map rec_id (filter (\<lambda>d. rec_path d = path) (docs st)))"
    by (simp add: delete_handler_eq [OF assms])
  have gone: "filter (\<lambda>d. rec_path d = path) (docs st1) = []"
    unfolding docs1 by (rule lookup_after_delete)
  obtain st2 where second: "delete_handler req st1 = (Inr (ok ''delete'' []), st2)"
    and docs2: "docs st2 = docs st1" and calls2: "calls st2 = calls st1 @ [Es_search_path path]"
    by (simp add: delete_handler_eq [OF assms] gone)
  have noop: "filter (\<lambda>d. rec_path d = path) (docs st) = [] \<longrightarrow>
                docs st1 = docs st \<and> calls st1 = calls st @ [Es_search_path path]"
    by (simp add: docs1 calls1)
  from first second docs2 gone calls2 noop show ?thesis
    by blast
qed

lemma delete_example_first:
  "delete_handler delete_cat cats_index = (Inr (ok ''delete'' []), cats_deleted)"
  by (simp add: delete_handler_def ids_with_path_def es_search_path_def es_delete_def Let_def
      delete_cat_def cats_index_def cats_deleted_def)

lemma delete_example_second:
  "delete_handler delete_cat cats_deleted =
     (Inr (ok ''delete'' []),
      cats_deleted\<lparr>calls := [Es_search_path ''cats/1.jpg'', Es_delete 0,
                              Es_search_path ''cats/1.jpg'']\<rparr>)"
  by (simp add: delete_handler_def ids_with_path_def es_search_path_def delete_cat_def
      cats_deleted_def)

theorem delete_idempotent_witness:
  "req_form delete_cat ''filepath'' = Some ''cats/1.jpg''
   \<and> delete_handler delete_cat cats_index = (Inr (ok ''delete'' []), cats_deleted)
   \<and> delete_handler delete_cat cats_deleted =
       (Inr (ok ''delete'' []),
        cats_deleted\<lparr>calls := [Es_search_path ''cats/1.jpg'', Es_delete 0,
                                Es_search_path ''cats/1.jpg'']\<rparr>)"
proof -
  have field: "req_form delete_cat ''filepath'' = Some ''cats/1.jpg''"
    by (simp add: delete_cat_def)
  from delete_idempotent [OF field, of cats_index] field delete_example_first
    delete_example_second
  show ?thesis
    by simp
qed

subsection \<open>Add\<close>

text \<open>The three ways an add request ends: inserted, insert failed, rejected before any call.\<close>

lemma add_handler_inserted:
  assumes "json_loads lib (case req_form req ''metadata'' of None \<Rightarrow> ''null'' | Some s \<Rightarrow> s) = Some md"
    and "get_image req ''url'' ''image'' = Inr (img, bs)"
    and "truthy (req_form req ''filepath'') \<or> \<not> bs"
    and "generate_signature lib img bs = Some sg"
  shows "add_handler lib req st =
     (Inr (ok ''add'' []),
      st\<lparr>docs := filter (\<lambda>d. rec_id d \<notin> set (map rec_id
                       (filter (\<lambda>d. rec_path d = resolved_path req img) (docs st))))
                   (docs st @ [\<lparr>rec_id = next_id st, rec_path = resolved_path req img,
                                rec_signature = sg, rec_metadata = md\<rparr>]),
         next_id := Suc (next_id st),
         calls := calls st @ [Es_search_path (resolved_path req img),
                              Ses_add_image (resolved_path req img) img bs md]
                  @ map Es_delete (map rec_id
                      (filter (\<lambda>d. rec_path d = resolved_path req img) (docs st)))\<rparr>)"
  using assms
  by (auto simp: add_handler_def ids_with_path_def es_search_path_def add_image_def
      delete_ids_eq Let_def resolved_path_def)

lemma add_handler_insert_failed:
  assumes "json_loads lib (case req_form req ''metadata'' of None \<Rightarrow> ''null'' | Some s \<Rightarrow> s) = Some md"
    and "get_image req ''url'' ''image'' = Inr (img, bs)"
    and "truthy (req_form req ''filepath'') \<or> \<not> bs"
    and "generate_signature lib img bs = None"
  shows "add_handler lib req st =
     (Inl SignatureError,
      st\<lparr>calls := calls st @ [Es_search_path (resolved_path req img),
                              Ses_add_image (resolved_path req img) img bs md]\<rparr>)"
  using assms
  by (auto simp: add_handler_def ids_with_path_def es_search_path_def add_image_def
      delete_ids_eq Let_def resolved_path_def)

lemma add_handler_rejected:
  assumes "json_loads lib (case req_form req ''metadata'' of None \<Rightarrow> ''null'' | Some s \<Rightarrow> s) = None
     \<or> (\<exists>e. get_image req ''url'' ''image'' = Inl e)
     \<or> (\<exists>img. get_image req ''url'' ''image'' = Inr (img, True)
            \<and> \<not> truthy (req_form req ''filepath''))"
  shows "\<exists>e. add_handler lib req st = (Inl e, st)"
  using assms
  by (auto simp: add_handler_def Let_def split: option.splits sum.splits)

lemma add_handler_cases:
  obtains (rejected) e where "add_handler lib req st = (Inl e, st)"
  | (insert_failed) md img bs where
      "json_loads lib (case req_form req ''metadata'' of None \<Rightarrow> ''null'' | Some s \<Rightarrow> s) = Some md"
      "get_image req ''url'' ''image'' = Inr (img, bs)"
      "truthy (req_form req ''filepath'') \<or> \<not> bs"
      "generate_signature lib img bs = None"
  | (inserted) md img bs sg where
      "json_loads lib (case req_form req ''metadata'' of None \<Rightarrow> ''null'' | Some s \<Rightarrow> s) = Some md"
      "get_image req ''url'' ''image'' = Inr (img, bs)"
      "truthy (req_form req ''filepath'') \<or> \<not> bs"
      "generate_signature lib img bs = Some sg"
proof (cases "json_loads lib (case req_form req ''metadata'' of None \<Rightarrow> ''null'' | Some s \<Rightarrow> s)")
  case None
  then have "\<exists>e. add_handler lib req st = (Inl e, st)"
    by (intro add_handler_rejected) simp
  with rejected show ?thesis by blast
next
  case (Some md)
  show ?thesis
  proof (cases "get_image req ''url'' ''image''")
    case (Inl e)
    then have "\<exists>e. add_handler lib req st = (Inl e, st)"
      by (intro add_handler_rejected) simp
    with rejected show ?thesis by blast
  next
    case (Inr p)
    obtain img bs where p: "get_image req ''url'' ''image'' = Inr (img, bs)"
      using Inr by (cases p) simp
    show ?thesis
    proof (cases "truthy (req_form req ''filepath'') \<or> \<not> bs")
      case False
      with p have "\<exists>e. add_handler lib req st = (Inl e, st)"
        by (intro add_handler_rejected) auto
      with rejected show ?thesis by blast
    next
      case True
      show ?thesis
      proof (cases "generate_signature lib img bs")
        case None
        from insert_failed [OF Some p True None] show ?thesis .
      next
        case sg: (Some sg)
        from inserted [OF Some p True sg] show ?thesis .
      qed
    qed
  qed
qed

text \<open>
  Claim C2. An add request either fails before it issues any call to the index, or
  issues, in this order: the lookup of the ids stored under its path, the insert of the
  new record, and then one delete for each id the lookup captured. When the insert
  fails nothing is deleted and the records are unchanged; a delete is never issued
  before the insert.
\<close>

theorem add_insert_before_retire:
  "(\<exists>e. add_handler lib req st = (Inl e, st))
   \<or> (\<exists>img bs md.
        get_image req ''url'' ''image'' = Inr (img, bs)
        \<and> json_loads lib (case req_form req ''metadata'' of None \<Rightarrow> ''null'' | Some s \<Rightarrow> s) = Some md
        \<and> ((fst (add_handler lib req st) = Inl SignatureError
             \<and> calls (snd (add_handler lib req st)) =
                 calls st @ [Es_search_path (resolved_path req img),
                             Ses_add_image (resolved_path req img) img bs md]
             \<and> docs (snd (add_handler lib req st)) = docs st)
            \<or> (fst (add_handler lib req st) = Inr (ok ''add'' [])
                \<and> calls (snd (add_handler lib req st)) =
                    calls st @ [Es_search_path (resolved_path req img),
                                Ses_add_image (resolved_path req img) img bs md]
                      @ map Es_delete (map rec_id
                          (filter (\<lambda>d. rec_path d = resolved_path req img) (docs st))))))"
proof (cases rule: add_handler_cases [of lib req st])
  case (rejected e)
  then show ?thesis by blast
next
  case (insert_failed md img bs)
  from insert_failed(1,2) show ?thesis
    by (simp add: add_handler_insert_failed [OF insert_failed])
next
  case (inserted md img bs sg)
  from inserted(1,2) show ?thesis
    by (simp add: add_handler_inserted [OF inserted])
qed

lemma add_example:
  "add_handler example_libs add_cat cats_index =
     (Inr (ok ''add'' []),
      \<lparr>docs = [\<lparr>rec_id = 1, rec_path = ''cats/1.jpg.bak'', rec_signature = 5, rec_metadata = ''b''\<rparr>,
               \<lparr>rec_id = 2, rec_path = ''cats'', rec_signature = 3, rec_metadata = ''c''\<rparr>,
               \<lparr>rec_id = 3, rec_path = ''cats/1.jpg'', rec_signature = 3, rec_metadata = ''null''\<rparr>],
       next_id = 4,
       calls = [Es_search_path ''cats/1.jpg'', Ses_add_image ''cats/1.jpg'' ''abc'' False ''null'',
                Es_delete 0]\<rparr>)"
  by (simp add: add_handler_def get_image_def truthy_def ids_with_path_def es_search_path_def
      add_image_def es_delete_def ok_def Let_def add_cat_def cats_index_def example_libs_def)

theorem add_insert_before_retire_witness:
  "calls (snd (add_handler example_libs add_cat cats_index)) =
     [Es_search_path ''cats/1.jpg'', Ses_add_image ''cats/1.jpg'' ''abc'' False ''null'', Es_delete 0]
   \<and> fst (add_handler example_libs add_cat cats_index) = Inr (ok ''add'' [])"
  using add_insert_before_retire [of example_libs add_cat cats_index] add_example
  by simp

text \<open>
  An add request with raw image bytes (no \<^verbatim>\<open>url\<close> field, an \<^verbatim>\<open>image\<close> file) and no path
  (the \<^verbatim>\<open>filepath\<close> field absent or empty) raises \<^verbatim>\<open>ValueError\<close> before any call to the
  index: the state of the index, its records and the calls issued, is unchanged. No
  handler is registered for that exception, so a caller who passes the token check is
  answered by the handler for status 500.
\<close>

lemma add_bytes_without_path_rejected:
  assumes "req_form req ''url'' = None" and "req_files req ''image'' = Some bytes"
    and "\<not> truthy (req_form req ''filepath'')"
    and "\<not> (truthy (auth_token cfg) \<and> req_args req ''token'' \<noteq> auth_token cfg)"
  shows "add_handler lib req st = (Inl ValueError, st)
     \<and> add_route cfg lib req st = (server_error lib ValueError, st)
     \<and> snd (server_error lib ValueError) = 500"
proof -
  have rej: "add_handler lib req st = (Inl ValueError, st)"
    using assms(1-3) by (simp add: add_handler_def get_image_def split: option.splits)
  with assms(4) show ?thesis
    by (simp add: add_route_def full_dispatch_request_def login_required_def server_error_def)
qed

text \<open>
  The sibling requests with a required field missing are answered as client errors, by
  the handler registered for status 400: a delete without \<^verbatim>\<open>filepath\<close> (line 115), and an
  add with neither \<^verbatim>\<open>url\<close> nor \<^verbatim>\<open>image\<close> (line 74). Neither touches the index.
\<close>

lemma login_required_passed:
  assumes "\<not> (truthy (auth_token cfg) \<and> req_args req ''token'' \<noteq> auth_token cfg)"
  shows "login_required cfg req f st = f st"
  unfolding login_required_def using assms by (rule if_not_P)

lemma delete_without_path_bad_request:
  assumes "req_form req ''filepath'' = None"
    and "\<not> (truthy (auth_token cfg) \<and> req_args req ''token'' \<noteq> auth_token cfg)"
  shows "delete_route cfg lib req st = (bad_request, st) \<and> client_error (snd bad_request)"
proof -
  have "delete_handler req st = (Inl BadRequestKeyError, st)"
    using assms(1) by (simp add: delete_handler_def)
  then show ?thesis
    by (simp add: delete_route_def full_dispatch_request_def login_required_passed [OF assms(2)]
        bad_request_def client_error_def)
qed

lemma add_without_image_bad_request:
  assumes "json_loads lib (case req_form req ''metadata'' of None \<Rightarrow> ''null'' | Some s \<Rightarrow> s) = Some md"
    and "req_form req ''url'' = None" and "req_files req ''image'' = None"
    and "\<not> (truthy (auth_token cfg) \<and> req_args req ''token'' \<noteq> auth_token cfg)"
  shows "add_route cfg lib req st = (bad_request, st)"
proof -
  have "add_handler lib req st = (Inl BadRequestKeyError, st)"
    using assms(1-3) by (simp add: add_handler_def get_image_def)
  then show ?thesis
    by (simp add: add_route_def full_dispatch_request_def login_required_passed [OF assms(4)])
qed

lemma missing_field_examples:
  "delete_route example_config example_libs delete_no_path cats_index =
     ((Envelope \<lparr>status = ''fail'', error = [''bad request''], method_name = [], result = []\<rparr>,
       400), cats_index)"
  "add_route example_config example_libs add_nothing cats_index =
     ((Envelope \<lparr>status = ''fail'', error = [''bad request''], method_name = [], result = []\<rparr>,
       400), cats_index)"
  by (simp_all add: delete_route_def add_route_def full_dispatch_request_def login_required_def
      delete_handler_def add_handler_def get_image_def truthy_def bad_request_def
      delete_no_path_def add_nothing_def example_config_def example_libs_def)

text \<open>
  Claim C3. An add with raw image bytes and no path field is to fail as invalid input,
  answered to the caller as a client error, without any mutation of the index. The code
  does not mutate the index, but it does not answer a client error: at the request
  \<open>add_bytes_only\<close> (an \<^verbatim>\<open>image\<close> file, no \<^verbatim>\<open>url\<close>, no \<^verbatim>\<open>filepath\<close>) the index is returned
  unchanged and the answer is the \<^verbatim>\<open>fail\<close> envelope with status 500, which is not in the
  4xx range, where the sibling requests above are answered 400.
\<close>

theorem add_bytes_without_path_not_client_error:
  "req_form add_bytes_only ''url'' = None
   \<and> req_files add_bytes_only ''image'' = Some ''PNG''
   \<and> req_form add_bytes_only ''filepath'' = None
   \<and> add_handler example_libs add_bytes_only cats_index = (Inl ValueError, cats_index)
   \<and> add_route example_config example_libs add_bytes_only cats_index =
       ((Envelope \<lparr>status = ''fail'', error = [''ValueError''], method_name = [], result = []\<rparr>,
         500), cats_index)
   \<and> \<not> client_error 500"
  by (simp add: add_route_def full_dispatch_request_def login_required_def add_handler_def
      get_image_def truthy_def server_error_def client_error_def add_bytes_only_def
      example_config_def example_libs_def)

text \<open>A caller who fails the token check is answered 403 and the view is not run.\<close>

lemma login_required_denied:
  assumes "truthy (auth_token cfg)" and "req_args req ''token'' \<noteq> auth_token cfg"
  shows "login_required cfg req f st = (Inr (Empty_object, Some 403), st)"
  using assms by (simp add: login_required_def)

subsection \<open>Path uniqueness\<close>

lemma add_handler_succeeds:
  assumes "add_handler lib req st = (Inr rv, st')"
  obtains md img bs sg where
    "json_loads lib (case req_form req ''metadata'' of None \<Rightarrow> ''null'' | Some s \<Rightarrow> s) = Some md"
    "get_image req ''url'' ''image'' = Inr (img, bs)"
    "truthy (req_form req ''filepath'') \<or> \<not> bs"
    "generate_signature lib img bs = Some sg"
proof (cases rule: add_handler_cases [of lib req st])
  case (rejected e)
  with assms show ?thesis by simp
next
  case (insert_failed md img bs)
  from add_handler_insert_failed [OF insert_failed, of st] assms show ?thesis
    by simp
next
  case (inserted md img bs sg)
  from that [OF inserted] show ?thesis .
qed

lemma adds_to_resolved:
  assumes "adds_to P req" and "get_image req ''url'' ''image'' = Inr (img, bs)"
    and "truthy (req_form req ''filepath'') \<or> \<not> bs"
  shows "resolved_path req img = P"
  using assms
  by (auto simp: adds_to_def resolved_path_def truthy_def get_image_def split: option.splits)

text \<open>
  One successful add for \<open>P\<close> on a well-formed index: exactly the new record is stored
  under \<open>P\<close> afterwards, and the index stays well-formed.
\<close>

lemma add_step:
  assumes fresh: "fresh_ids st" and to: "adds_to P req"
    and run: "add_handler lib req st = (Inr rv, st')"
  shows "fresh_ids st' \<and>
     (\<exists>img bs sg md.
        get_image req ''url'' ''image'' = Inr (img, bs)
        \<and> generate_signature lib img bs = Some sg
        \<and> json_loads lib (case req_form req ''metadata'' of None \<Rightarrow> ''null'' | Some s \<Rightarrow> s) = Some md
        \<and> filter (\<lambda>d. rec_path d = P) (docs st') =
            [\<lparr>rec_id = next_id st, rec_path = P, rec_signature = sg, rec_metadata = md\<rparr>])"
proof -
  from run obtain md img bs sg where
    md: "json_loads lib (case req_form req ''metadata'' of None \<Rightarrow> ''null'' | Some s \<Rightarrow> s) = Some md"
    and img: "get_image req ''url'' ''image'' = Inr (img, bs)"
    and given: "truthy (req_form req ''filepath'') \<or> \<not> bs"
    and sg: "generate_signature lib img bs = Some sg"
    by (rule add_handler_succeeds)
  have P: "resolved_path req img = P"
    using to img given by (rule adds_to_resolved)
  define old where "old = map rec_id (filter (\<lambda>d. rec_path d = P) (docs st))"
  define new where
    "new = \<lparr>rec_id = next_id st, rec_path = P, rec_signature = sg, rec_metadata = md\<rparr>"
  from add_handler_inserted [OF md img given sg, of st] run
  have docs': "docs st' = filter (\<lambda>d. rec_id d \<notin> set old) (docs st @ [new])"
    and next': "next_id st' = Suc (next_id st)"
    by (auto simp: P old_def new_def)
  have below: "\<forall>d \<in> set (docs st). rec_id d < next_id st"
    using fresh by (simp add: fresh_ids_def list_all_iff)
  then have "next_id st \<notin> set old"
    by (auto simp: old_def)
  then have keep: "filter (\<lambda>d. rec_path d = P) (filter (\<lambda>d. rec_id d \<notin> set old) [new]) = [new]"
    by (simp add: new_def)
  have gone: "filter (\<lambda>d. rec_path d = P) (filter (\<lambda>d. rec_id d \<notin> set old) (docs st)) = []"
    unfolding old_def by (rule lookup_after_delete)
  have one: "filter (\<lambda>d. rec_path d = P) (docs st') = [new]"
    unfolding docs' filter_append gone keep by simp
  have "fresh_ids st'"
    using below by (auto simp: fresh_ids_def list_all_iff docs' next' new_def)
  with img sg md one show ?thesis
    by (simp add: new_def)
qed

text \<open>
  Claim C1. On an index whose ids were all assigned by the index, after a non-empty
  sequence of add requests for the path \<open>P\<close> has been served one after the other, all of
  them successfully, the lookup by \<open>P\<close> returns exactly one record; its signature is the
  one the engine computes for the image of the last request and its metadata is the
  metadata of the last request.
\<close>

theorem path_unique_after_adds:
  assumes "fresh_ids st" and "reqs \<noteq> []" and "\<forall>r \<in> set reqs. adds_to P r"
    and "run_adds lib reqs st = (Inr (), st')"
  shows "\<exists>i img bs sg md.
      fst (es_search_path P st') =
        [\<lparr>rec_id = i, rec_path = P, rec_signature = sg, rec_metadata = md\<rparr>]
      \<and> fst (ids_with_path P st') = [i]
      \<and> get_image (last reqs) ''url'' ''image'' = Inr (img, bs)
      \<and> generate_signature lib img bs = Some sg
      \<and> json_loads lib (case req_form (last reqs) ''metadata'' of
                           None \<Rightarrow> ''null'' | Some s \<Rightarrow> s) = Some md"
  using assms
proof (induction reqs arbitrary: st)
  case Nil
  then show ?case by simp
next
  case (Cons r rs)
  from Cons.prems(4) obtain rv st1 where
    step: "add_handler lib r st = (Inr rv, st1)" and rest: "run_adds lib rs st1 = (Inr (), st')"
    by (auto split: prod.splits sum.splits)
  from Cons.prems(3) have to: "adds_to P r"
    by simp
  note one = add_step [OF Cons.prems(1) to step]
  show ?case
  proof (cases "rs = []")
    case True
    with rest have "st' = st1"
      by simp
    with one True show ?thesis
      by (auto simp: es_search_path_def ids_with_path_def)
  next
    case False
    from one have "fresh_ids st1"
      by simp
    from Cons.IH [OF this False _ rest] Cons.prems(3) False show ?thesis
      by simp
  qed
qed

lemma run_adds_example:
  "run_adds example_libs [add_first, add_second] empty_index =
     (Inr (),
      \<lparr>docs = [\<lparr>rec_id = 1, rec_path = ''x.jpg'', rec_signature = 3, rec_metadata = ''2''\<rparr>],
       next_id = 2,
       calls = [Es_search_path ''x.jpg'', Ses_add_image ''x.jpg'' ''http://a/1'' False ''1'',
                Es_search_path ''x.jpg'', Ses_add_image ''x.jpg'' ''PNG'' True ''2'',
                Es_delete 0]\<rparr>)"
  by (simp add: add_handler_def get_image_def truthy_def ids_with_path_def es_search_path_def
      add_image_def es_delete_def ok_def Let_def example_libs_def empty_index_def
      add_first_def add_second_def)

theorem path_unique_after_adds_witness:
  "fresh_ids empty_index
   \<and> adds_to ''x.jpg'' add_first \<and> adds_to ''x.jpg'' add_second
   \<and> fst (run_adds example_libs [add_first, add_second] empty_index) = Inr ()
   \<and> fst (es_search_path ''x.jpg''
        (snd (run_adds example_libs [add_first, add_second] empty_index))) =
       [\<lparr>rec_id = 1, rec_path = ''x.jpg'', rec_signature = 3, rec_metadata = ''2''\<rparr>]"
proof -
  have fresh: "fresh_ids empty_index"
    by (simp add: fresh_ids_def empty_index_def)
  have some: "[add_first, add_second] \<noteq> []"
    by simp
  have first: "adds_to ''x.jpg'' add_first" and second: "adds_to ''x.jpg'' add_second"
    by (simp_all add: adds_to_def add_first_def add_second_def truthy_def)
  then have all: "\<forall>r \<in> set [add_first, add_second]. adds_to ''x.jpg'' r"
    by simp
  have run: "run_adds example_libs [add_first, add_second] empty_index =
      (Inr (), snd (run_adds example_libs [add_first, add_second] empty_index))"
    by (simp only: run_adds_example snd_conv)
  from path_unique_after_adds [OF fresh some all run] fresh first second show ?thesis
    unfolding run_adds_example by (simp add: es_search_path_def)
qed

subsection \<open>Well-formed indexes\<close>

text \<open>The empty index is well-formed, and every add and delete keeps the index so.\<close>

lemma fresh_ids_empty:
  "fresh_ids \<lparr>docs = [], next_id = n, calls = cs\<rparr>"
  by (simp add: fresh_ids_def)

lemma fresh_ids_add_handler:
  assumes "fresh_ids st"
  shows "fresh_ids (snd (add_handler lib req st))"
proof (cases rule: add_handler_cases [of lib req st])
  case (rejected e)
  with assms show ?thesis by simp
next
  case (insert_failed md img bs)
  from assms show ?thesis
    by (simp add: add_handler_insert_failed [OF insert_failed] fresh_ids_def)
next
  case (inserted md img bs sg)
  from assms show ?thesis
    by (auto simp: add_handler_inserted [OF inserted] fresh_ids_def list_all_iff)
qed

lemma fresh_ids_delete_handler:
  assumes "fresh_ids st"
  shows "fresh_ids (snd (delete_handler req st))"
proof (cases "req_form req ''filepath''")
  case None
  with assms show ?thesis
    by (simp add: delete_handler_no_path)
next
  case (Some path)
  from assms show ?thesis
    by (simp add: delete_handler_eq [OF Some] fresh_ids_def list_all_iff)
qed


end
